theory Spec2Isabelle
  imports Main "HOL-Library.Word" "HOL-Library.Sublist"
begin

section \<open>Scalars, bytes and the serialization cursor\<close>

type_synonym byte = "8 word"

type_synonym u32 = "32 word"

text \<open>
  \<open>NCT::fr\<close> of the native representation: an element of the scalar field, kept as
  its canonical representative below \<open>fr_modulus\<close>. The native \<open>address\<close> is a scalar too.
\<close>

type_synonym fr = nat

definition fr_modulus :: nat where
  "fr_modulus = 21888242871839275222246405745257275088548364400416034343698204186575808495617"

text \<open>
  \<open>uint8_t const*& it\<close>: the read cursor is a bare address. It carries no length, so the
  memory it walks over is a total map from addresses to bytes, and what lies behind the
  caller's buffer is part of that map.
\<close>

type_synonym memory = "nat \<Rightarrow> byte"

definition bytes_at :: "memory \<Rightarrow> nat \<Rightarrow> nat \<Rightarrow> byte list" where
  "bytes_at m it n = map (\<lambda>i. m (it + i)) [0..<n]"

text \<open>A caller's buffer placed at address 0, followed by zero bytes.\<close>

definition mem_of :: "byte list \<Rightarrow> memory" where
  "mem_of bs = (\<lambda>i. if i < length bs then bs ! i else 0)"

text \<open>Fixed-width big-endian encodings: \<open>n\<close> bytes, most significant first.\<close>

fun be_bytes :: "nat \<Rightarrow> nat \<Rightarrow> byte list" where
  "be_bytes 0 v = []"
| "be_bytes (Suc n) v = be_bytes n (v div 256) @ [of_nat (v mod 256)]"

definition be_value :: "byte list \<Rightarrow> nat" where
  "be_value bs = foldl (\<lambda>acc b. acc * 256 + unat b) 0 bs"

text \<open>
  Modelled from the spec: the primitives of \<open>serialize::\<close> (\<open>read\<close> and \<open>write\<close> of a
  \<open>uint32_t\<close>, a \<open>bool\<close>, a field element and a \<open>std::array\<close>) are not among the sources.
  Section 4.5 fixes the widths: 32-byte big-endian field elements, 4-byte unsigned integers,
  1-byte booleans; arrays are inlined element after element with no length prefix. \<open>write\<close>
  appends to the \<open>std::vector<uint8_t>\<close>; \<open>read\<close> decodes at the cursor and advances it.
\<close>

definition write_uint32 :: "byte list \<Rightarrow> u32 \<Rightarrow> byte list" where
  "write_uint32 buf v = buf @ be_bytes 4 (unat v)"

definition read_uint32 :: "memory \<Rightarrow> nat \<Rightarrow> nat \<times> u32" where
  "read_uint32 m it = (it + 4, of_nat (be_value (bytes_at m it 4)))"

definition write_bool :: "byte list \<Rightarrow> bool \<Rightarrow> byte list" where
  "write_bool buf b = buf @ [if b then 1 else 0]"

definition read_bool :: "memory \<Rightarrow> nat \<Rightarrow> nat \<times> bool" where
  "read_bool m it = (it + 1, m it \<noteq> 0)"

definition write_fr :: "byte list \<Rightarrow> fr \<Rightarrow> byte list" where
  "write_fr buf x = buf @ be_bytes 32 x"

definition read_fr :: "memory \<Rightarrow> nat \<Rightarrow> nat \<times> fr" where
  "read_fr m it = (it + 32, be_value (bytes_at m it 32) mod fr_modulus)"

definition write_array :: "(byte list \<Rightarrow> 'a \<Rightarrow> byte list) \<Rightarrow> byte list \<Rightarrow> 'a list \<Rightarrow> byte list" where
  "write_array wr buf xs = foldl wr buf xs"

fun read_array :: "(memory \<Rightarrow> nat \<Rightarrow> nat \<times> 'a) \<Rightarrow> nat \<Rightarrow> memory \<Rightarrow> nat \<Rightarrow> nat \<times> 'a list" where
  "read_array rd 0 m it = (it, [])"
| "read_array rd (Suc n) m it =
     (let (it1, x) = rd m it;
          (it2, xs) = read_array rd n m it1
      in (it2, x # xs))"

section \<open>The representation abstraction\<close>

text \<open>
  Modelled from the spec: \<open>GeneratorIndex\<close> is declared outside the sources. Section 3: a
  small integer tag, one per distinct structure kind; these are the two enumerators the
  sources name.
\<close>

datatype GeneratorIndex = FUNCTION_SIGNATURE | PRIVATE_CIRCUIT_PUBLIC_INPUTS

text \<open>
  What a structure template uses of its parameter \<open>NCT\<close>: the conversions \<open>fr(...)\<close> of
  a \<open>uint32\<close> and of a \<open>boolean\<close>, and \<open>NCT::compress\<close>.
\<close>

record ('u32, 'boolean, 'f) NCT =
  fr_of_uint32 :: "'u32 \<Rightarrow> 'f"
  fr_of_boolean :: "'boolean \<Rightarrow> 'f"
  compress :: "'f list \<Rightarrow> GeneratorIndex \<Rightarrow> 'f"

text \<open>
  Modelled from the spec: the constraint system and its wires are outside the sources.
  Section 4.2: a scalar is lifted to a wire bound to that scalar's value in the target
  context, one witness allocated per scalar; section 4.3: \<open>set_public\<close> marks a wire as a
  public input of the enclosing constraint system.
\<close>

record Composer =
  variables :: "fr list"
  public_inputs :: "nat list"

record witness_t =
  witness :: fr
  witness_index :: nat

definition add_witness :: "Composer \<Rightarrow> fr \<Rightarrow> Composer \<times> witness_t" where
  "add_witness composer v =
     (composer\<lparr>variables := variables composer @ [v]\<rparr>,
      \<lparr>witness = v, witness_index = length (variables composer)\<rparr>)"

definition set_public_wire :: "Composer \<Rightarrow> witness_t \<Rightarrow> Composer" where
  "set_public_wire composer w =
     composer\<lparr>public_inputs := public_inputs composer @ [witness_index w]\<rparr>"

text \<open>
  \<open>NativeTypes\<close> delegates \<open>compress\<close> to the compression primitive, \<open>CircuitTypes\<close> to
  its in-circuit counterpart; both primitives are external and stay parameters.
\<close>

definition NativeTypes :: "(fr list \<Rightarrow> GeneratorIndex \<Rightarrow> fr) \<Rightarrow> (u32, bool, fr) NCT" where
  "NativeTypes pedersen =
     \<lparr>fr_of_uint32 = unat, fr_of_boolean = (\<lambda>b. if b then 1 else 0), compress = pedersen\<rparr>"

definition CircuitTypes ::
  "(witness_t list \<Rightarrow> GeneratorIndex \<Rightarrow> witness_t) \<Rightarrow> (witness_t, witness_t, witness_t) NCT" where
  "CircuitTypes pedersen_ct =
     \<lparr>fr_of_uint32 = (\<lambda>w. w), fr_of_boolean = (\<lambda>w. w), compress = pedersen_ct\<rparr>"

text \<open>\<open>plonk::stdlib::types::to_ct\<close> on the native scalar types and on arrays of scalars.\<close>

definition to_ct_fr :: "Composer \<Rightarrow> fr \<Rightarrow> Composer \<times> witness_t" where
  "to_ct_fr composer e = add_witness composer e"

definition to_ct_uint32 :: "Composer \<Rightarrow> u32 \<Rightarrow> Composer \<times> witness_t" where
  "to_ct_uint32 composer e = add_witness composer (unat e)"

definition to_ct_bool :: "Composer \<Rightarrow> bool \<Rightarrow> Composer \<times> witness_t" where
  "to_ct_bool composer e = add_witness composer (if e then 1 else 0)"

fun map_composer :: "(Composer \<Rightarrow> 'a \<Rightarrow> Composer \<times> 'b) \<Rightarrow> Composer \<Rightarrow> 'a list \<Rightarrow> Composer \<times> 'b list" where
  "map_composer f composer [] = (composer, [])"
| "map_composer f composer (x # xs) =
     (let (c1, y) = f composer x;
          (c2, ys) = map_composer f c1 xs
      in (c2, y # ys))"

text \<open>
  A structure template is instantiated at one of the two representations;
  \<open>static_assert(std::is_same<NativeTypes, NCT>::value)\<close> inspects which.
\<close>

datatype ('n, 'c) representation = Native 'n | Circuit 'c

datatype failure = Static_assert_failed | Too_many_initializers | No_such_member

section \<open>FunctionSignature\<close>

record ('u32, 'boolean) FunctionSignature =
  vk_index :: 'u32
  is_private :: 'boolean
  is_constructor :: 'boolean

type_synonym FunctionSignature_native = "(u32, bool) FunctionSignature"

type_synonym FunctionSignature_ct = "(witness_t, witness_t) FunctionSignature"

text \<open>
  Aggregate initialisation of the three members from a braced list, in declaration order:
  a member without an initializer clause takes its default (\<open>is_private = false\<close>,
  \<open>is_constructor = false\<close>, a value-initialised \<open>vk_index\<close>); more clauses than members
  is ill-formed.
\<close>

fun FunctionSignature_braced :: "int list \<Rightarrow> failure + FunctionSignature_native" where
  "FunctionSignature_braced [] =
     Inr \<lparr>vk_index = 0, is_private = False, is_constructor = False\<rparr>"
| "FunctionSignature_braced [a] =
     Inr \<lparr>vk_index = of_int a, is_private = False, is_constructor = False\<rparr>"
| "FunctionSignature_braced [a, b] =
     Inr \<lparr>vk_index = of_int a, is_private = (b \<noteq> 0), is_constructor = False\<rparr>"
| "FunctionSignature_braced [a, b, c] =
     Inr \<lparr>vk_index = of_int a, is_private = (b \<noteq> 0), is_constructor = (c \<noteq> 0)\<rparr>"
| "FunctionSignature_braced (a # b # c # d # rest) = Inl Too_many_initializers"

text \<open>\<open>static FunctionSignature<NCT> empty() { return { 0, 0, 0, 0, 0 }; }\<close>\<close>

definition FunctionSignature_empty :: "failure + FunctionSignature_native" where
  "FunctionSignature_empty = FunctionSignature_braced [0, 0, 0, 0, 0]"

definition FunctionSignature_to_circuit_type ::
  "Composer \<Rightarrow> (FunctionSignature_native, FunctionSignature_ct) representation
     \<Rightarrow> failure + (Composer \<times> FunctionSignature_ct)" where
  "FunctionSignature_to_circuit_type composer s =
     (case s of
        Circuit _ \<Rightarrow> Inl Static_assert_failed
      | Native x \<Rightarrow>
          (let (c1, v) = to_ct_uint32 composer (vk_index x);
               (c2, p) = to_ct_bool c1 (is_private x);
               (c3, k) = to_ct_bool c2 (is_constructor x)
           in Inr (c3, \<lparr>vk_index = v, is_private = p, is_constructor = k\<rparr>)))"

definition FunctionSignature_set_public ::
  "Composer \<Rightarrow> (FunctionSignature_native, FunctionSignature_ct) representation
     \<Rightarrow> failure + Composer" where
  "FunctionSignature_set_public composer s =
     (case s of
        Native _ \<Rightarrow> Inl Static_assert_failed
      | Circuit x \<Rightarrow>
          (let c1 = set_public_wire composer (vk_index x);
               c2 = set_public_wire c1 (is_private x);
               c3 = set_public_wire c2 (is_constructor x)
           in Inr c3))"

definition FunctionSignature_hash_inputs ::
  "('u32, 'boolean, 'f) NCT \<Rightarrow> ('u32, 'boolean) FunctionSignature \<Rightarrow> 'f list" where
  "FunctionSignature_hash_inputs nct s =
     [fr_of_uint32 nct (vk_index s),
      fr_of_boolean nct (is_private s),
      fr_of_boolean nct (is_constructor s)]"

definition FunctionSignature_hash ::
  "('u32, 'boolean, 'f) NCT \<Rightarrow> ('u32, 'boolean) FunctionSignature \<Rightarrow> 'f" where
  "FunctionSignature_hash nct s =
     compress nct (FunctionSignature_hash_inputs nct s) FUNCTION_SIGNATURE"

definition read_FunctionSignature ::
  "memory \<Rightarrow> nat \<Rightarrow> FunctionSignature_native \<Rightarrow> nat \<times> FunctionSignature_native" where
  "read_FunctionSignature m it function_signature =
     (let (it1, v) = read_uint32 m it;
          s1 = function_signature\<lparr>vk_index := v\<rparr>;
          (it2, p) = read_bool m it1;
          s2 = s1\<lparr>is_private := p\<rparr>;
          (it3, k) = read_bool m it2;
          s3 = s2\<lparr>is_constructor := k\<rparr>
      in (it3, s3))"

definition write_FunctionSignature :: "byte list \<Rightarrow> FunctionSignature_native \<Rightarrow> byte list" where
  "write_FunctionSignature buf function_signature =
     (let buf1 = write_uint32 buf (vk_index function_signature);
          buf2 = write_bool buf1 (is_private function_signature);
          buf3 = write_bool buf2 (is_constructor function_signature)
      in buf3)"

section \<open>PublicCircuitPublicInputs\<close>

text \<open>
  \<open>constants.hpp\<close> is not among the sources: the array lengths are parameters.
\<close>

record constants =
  CUSTOM_INPUTS_LENGTH :: nat
  CUSTOM_OUTPUTS_LENGTH :: nat
  EMITTED_EVENTS_LENGTH :: nat
  STATE_TRANSITIONS_LENGTH :: nat
  STATE_READS_LENGTH :: nat
  PUBLIC_CALL_STACK_LENGTH :: nat
  CONTRACT_DEPLOYMENT_CALL_STACK_LENGTH :: nat
  PARTIAL_L1_CALL_STACK_LENGTH :: nat

text \<open>
  \<open>CallContext\<close>, \<open>StateTransition\<close> and \<open>StateRead\<close> are declared in headers that are
  not among the sources: their types are the parameters \<open>'cc\<close>, \<open>'st\<close>, \<open>'sr\<close>, and
  their member functions are passed in. A \<open>std::array\<close> is a list; a well-formed
  instance has the lengths of \<open>constants\<close>.
\<close>

record ('f, 'a, 'cc, 'st, 'sr) PublicCircuitPublicInputs =
  call_context :: 'cc
  custom_inputs :: "'f list"
  custom_outputs :: "'f list"
  emitted_events :: "'f list"
  state_transitions :: "'st list"
  state_reads :: "'sr list"
  public_call_stack :: "'f list"
  contract_deployment_call_stack :: "'f list"
  partial_l1_call_stack :: "'f list"
  old_private_data_tree_root :: 'f
  prover_address :: 'a

text \<open>The \<open>to_circuit_type\<close> members of the three sub-structures.\<close>

record ('cc, 'st, 'sr, 'cc_ct, 'st_ct, 'sr_ct) sub_convert =
  CallContext_to_circuit_type :: "Composer \<Rightarrow> 'cc \<Rightarrow> Composer \<times> 'cc_ct"
  StateTransition_to_circuit_type :: "Composer \<Rightarrow> 'st \<Rightarrow> Composer \<times> 'st_ct"
  StateRead_to_circuit_type :: "Composer \<Rightarrow> 'sr \<Rightarrow> Composer \<times> 'sr_ct"

definition PublicCircuitPublicInputs_to_circuit_type ::
  "('cc, 'st, 'sr, 'cc_ct, 'st_ct, 'sr_ct) sub_convert \<Rightarrow> Composer
     \<Rightarrow> ((fr, fr, 'cc, 'st, 'sr) PublicCircuitPublicInputs,
         (witness_t, witness_t, 'cc_ct, 'st_ct, 'sr_ct) PublicCircuitPublicInputs) representation
     \<Rightarrow> failure + (Composer \<times> (witness_t, witness_t, 'cc_ct, 'st_ct, 'sr_ct) PublicCircuitPublicInputs)" where
  "PublicCircuitPublicInputs_to_circuit_type sub composer s =
     (case s of
        Circuit _ \<Rightarrow> Inl Static_assert_failed
      | Native x \<Rightarrow>
          (let (c, cc) = CallContext_to_circuit_type sub composer (call_context x);
               (c, ci) = map_composer to_ct_fr c (custom_inputs x);
               (c, co) = map_composer to_ct_fr c (custom_outputs x);
               (c, ee) = map_composer to_ct_fr c (emitted_events x);
               (c, st) = map_composer (StateTransition_to_circuit_type sub) c (state_transitions x);
               (c, sr) = map_composer (StateRead_to_circuit_type sub) c (state_reads x);
               (c, pcs) = map_composer to_ct_fr c (public_call_stack x);
               (c, cds) = map_composer to_ct_fr c (contract_deployment_call_stack x);
               (c, pls) = map_composer to_ct_fr c (partial_l1_call_stack x);
               (c, root) = to_ct_fr c (old_private_data_tree_root x);
               (c, prover) = to_ct_fr c (prover_address x)
           in Inr (c,
                \<lparr>call_context = cc,
                 custom_inputs = ci,
                 custom_outputs = co,
                 emitted_events = ee,
                 state_transitions = st,
                 state_reads = sr,
                 public_call_stack = pcs,
                 contract_deployment_call_stack = cds,
                 partial_l1_call_stack = pls,
                 old_private_data_tree_root = root,
                 prover_address = prover\<rparr>)))"

text \<open>
  \<open>spread_arr_into_vec\<close>: \<open>arr_size = sizeof(arr) / sizeof(fr)\<close> is the array's length, and
  that many elements, from the first on, are inserted at the end of the vector.
\<close>

definition spread_arr_into_vec :: "'f list \<Rightarrow> 'f list \<Rightarrow> 'f list" where
  "spread_arr_into_vec arr vec = (let arr_size = length arr in vec @ take arr_size arr)"

text \<open>
  The vector \<open>inputs\<close> that \<open>hash()\<close> builds; \<open>to_hashes\<close> calls the \<open>hash()\<close> of a
  sub-structure, here \<open>st_hash\<close> and \<open>sr_hash\<close>.
\<close>

definition PublicCircuitPublicInputs_hash_inputs ::
  "('st \<Rightarrow> 'f) \<Rightarrow> ('sr \<Rightarrow> 'f) \<Rightarrow> ('f, 'a, 'cc, 'st, 'sr) PublicCircuitPublicInputs \<Rightarrow> 'f list" where
  "PublicCircuitPublicInputs_hash_inputs st_hash sr_hash s =
     (let inputs = [];
          inputs = spread_arr_into_vec (custom_inputs s) inputs;
          inputs = spread_arr_into_vec (custom_outputs s) inputs;
          inputs = spread_arr_into_vec (emitted_events s) inputs;
          inputs = spread_arr_into_vec (map st_hash (state_transitions s)) inputs;
          inputs = spread_arr_into_vec (map sr_hash (state_reads s)) inputs;
          inputs = spread_arr_into_vec (public_call_stack s) inputs;
          inputs = spread_arr_into_vec (contract_deployment_call_stack s) inputs;
          inputs = spread_arr_into_vec (partial_l1_call_stack s) inputs;
          inputs = inputs @ [old_private_data_tree_root s]
      in inputs)"

definition PublicCircuitPublicInputs_hash ::
  "('u32, 'boolean, 'f) NCT \<Rightarrow> ('st \<Rightarrow> 'f) \<Rightarrow> ('sr \<Rightarrow> 'f)
     \<Rightarrow> ('f, 'a, 'cc, 'st, 'sr) PublicCircuitPublicInputs \<Rightarrow> 'f" where
  "PublicCircuitPublicInputs_hash nct st_hash sr_hash s =
     compress nct (PublicCircuitPublicInputs_hash_inputs st_hash sr_hash s)
       PRIVATE_CIRCUIT_PUBLIC_INPUTS"

text \<open>
  The members the structure declares, by name. An expression \<open>pis.name\<close> is well-formed
  only when \<open>name\<close> is one of them; a function template whose body names an undeclared
  member has no instantiation, so a call of it yields nothing.
\<close>

definition PublicCircuitPublicInputs_members :: "string list" where
  "PublicCircuitPublicInputs_members =
     [''call_context'',
      ''custom_inputs'', ''custom_outputs'',
      ''emitted_events'',
      ''state_transitions'', ''state_reads'',
      ''public_call_stack'', ''contract_deployment_call_stack'', ''partial_l1_call_stack'',
      ''old_private_data_tree_root'',
      ''prover_address'']"

definition member_access :: "string \<Rightarrow> failure + unit" where
  "member_access name =
     (if name \<in> set PublicCircuitPublicInputs_members then Inr () else Inl No_such_member)"

text \<open>
  The \<open>read\<close> and \<open>write\<close> overloads of \<open>StateTransition\<close> and \<open>StateRead\<close> are parameters.
  Both overloads below name \<open>pis.emitted_ouputs\<close> in their fourth line (lines 142 and 166
  of the source), where the structure declares \<open>emitted_events\<close> only; the lines on declared
  members go through the record. The lines after the fourth are kept as the source has them;
  they are never reached.
\<close>

record ('st, 'sr) sub_serialize =
  read_StateTransition :: "memory \<Rightarrow> nat \<Rightarrow> nat \<times> 'st"
  write_StateTransition :: "byte list \<Rightarrow> 'st \<Rightarrow> byte list"
  read_StateRead :: "memory \<Rightarrow> nat \<Rightarrow> nat \<times> 'sr"
  write_StateRead :: "byte list \<Rightarrow> 'sr \<Rightarrow> byte list"

definition read_PublicCircuitPublicInputs ::
  "constants \<Rightarrow> ('st, 'sr) sub_serialize \<Rightarrow> memory \<Rightarrow> nat
     \<Rightarrow> (fr, fr, 'cc, 'st, 'sr) PublicCircuitPublicInputs
     \<Rightarrow> failure + (nat \<times> (fr, fr, 'cc, 'st, 'sr) PublicCircuitPublicInputs)" where
  "read_PublicCircuitPublicInputs K sub m it private_circuit_public_inputs =
     (let pis = private_circuit_public_inputs;
          (it, v) = read_array read_fr (CUSTOM_INPUTS_LENGTH K) m it;
          pis = pis\<lparr>custom_inputs := v\<rparr>;
          (it, v) = read_array read_fr (CUSTOM_OUTPUTS_LENGTH K) m it;
          pis = pis\<lparr>custom_outputs := v\<rparr>;
          (it, v) = read_array read_fr (EMITTED_EVENTS_LENGTH K) m it;
          pis = pis\<lparr>emitted_events := v\<rparr>
      in case member_access ''emitted_ouputs'' of
           Inl e \<Rightarrow> Inl e
         | Inr _ \<Rightarrow>
             (let (it, v) = read_array (read_StateTransition sub) (STATE_TRANSITIONS_LENGTH K) m it;
                  pis = pis\<lparr>state_transitions := v\<rparr>;
                  (it, v) = read_array (read_StateRead sub) (STATE_READS_LENGTH K) m it;
                  pis = pis\<lparr>state_reads := v\<rparr>;
                  (it, v) = read_array read_fr (PUBLIC_CALL_STACK_LENGTH K) m it;
                  pis = pis\<lparr>public_call_stack := v\<rparr>;
                  (it, v) = read_array read_fr (CONTRACT_DEPLOYMENT_CALL_STACK_LENGTH K) m it;
                  pis = pis\<lparr>contract_deployment_call_stack := v\<rparr>;
                  (it, v) = read_array read_fr (PARTIAL_L1_CALL_STACK_LENGTH K) m it;
                  pis = pis\<lparr>partial_l1_call_stack := v\<rparr>;
                  (it, v) = read_fr m it;
                  pis = pis\<lparr>old_private_data_tree_root := v\<rparr>;
                  (it, v) = read_fr m it;
                  pis = pis\<lparr>prover_address := v\<rparr>
              in Inr (it, pis)))"

definition write_PublicCircuitPublicInputs ::
  "('st, 'sr) sub_serialize \<Rightarrow> byte list
     \<Rightarrow> (fr, fr, 'cc, 'st, 'sr) PublicCircuitPublicInputs \<Rightarrow> failure + byte list" where
  "write_PublicCircuitPublicInputs sub buf private_circuit_public_inputs =
     (let pis = private_circuit_public_inputs;
          buf = write_array write_fr buf (custom_inputs pis);
          buf = write_array write_fr buf (custom_outputs pis);
          buf = write_array write_fr buf (emitted_events pis)
      in case member_access ''emitted_ouputs'' of
           Inl e \<Rightarrow> Inl e
         | Inr _ \<Rightarrow>
             (let buf = write_array (write_StateTransition sub) buf (state_transitions pis);
                  buf = write_array (write_StateRead sub) buf (state_reads pis);
                  buf = write_array write_fr buf (public_call_stack pis);
                  buf = write_array write_fr buf (contract_deployment_call_stack pis);
                  buf = write_array write_fr buf (partial_l1_call_stack pis);
                  buf = write_fr buf (old_private_data_tree_root pis);
                  buf = write_fr buf (prover_address pis)
              in Inr buf))"

section \<open>Buffers in memory and round-trip pairs\<close>

text \<open>
  \<open>holds m a bs\<close>: the bytes \<open>bs\<close> lie in memory \<open>m\<close> from address \<open>a\<close> on. \<open>enc wr x\<close>
  is what a \<open>write\<close> overload appends for \<open>x\<close>. A \<open>write\<close>/\<open>read\<close> pair is a \<open>codec\<close> on
  the values satisfying \<open>P\<close> when \<open>write\<close> only appends and \<open>read\<close>, started on those bytes,
  returns the value and the address behind them.
\<close>

definition holds :: "memory \<Rightarrow> nat \<Rightarrow> byte list \<Rightarrow> bool" where
  "holds m a bs = (bytes_at m a (length bs) = bs)"

definition enc :: "(byte list \<Rightarrow> 'a \<Rightarrow> byte list) \<Rightarrow> 'a \<Rightarrow> byte list" where
  "enc wr x = wr [] x"

definition codec :: "('a \<Rightarrow> bool) \<Rightarrow> (byte list \<Rightarrow> 'a \<Rightarrow> byte list) \<Rightarrow> (memory \<Rightarrow> nat \<Rightarrow> nat \<times> 'a) \<Rightarrow> bool" where
  "codec P wr rd =
     ((\<forall>buf x. wr buf x = buf @ enc wr x) \<and>
      (\<forall>m a x. P x \<longrightarrow> holds m a (enc wr x) \<longrightarrow> rd m a = (a + length (enc wr x), x)))"

section \<open>The flattening as section 4.4 words it\<close>

text \<open>
  Every declared field but \<open>call_context\<close> in declaration order, ending with
  \<open>prover_address\<close>: scalars appended directly, arrays element by element, each
  sub-structure spread into its own scalars (\<open>st_fields\<close>, \<open>sr_fields\<close>). This is the
  sequence the specification describes, kept apart from \<open>PublicCircuitPublicInputs_hash_inputs\<close>,
  which is the sequence the code builds.
\<close>

definition declared_flattening ::
  "('st \<Rightarrow> 'f list) \<Rightarrow> ('sr \<Rightarrow> 'f list) \<Rightarrow> ('a \<Rightarrow> 'f)
     \<Rightarrow> ('f, 'a, 'cc, 'st, 'sr) PublicCircuitPublicInputs \<Rightarrow> 'f list" where
  "declared_flattening st_fields sr_fields fr_of_address s =
     custom_inputs s @ custom_outputs s @ emitted_events s
     @ concat (map st_fields (state_transitions s))
     @ concat (map sr_fields (state_reads s))
     @ public_call_stack s @ contract_deployment_call_stack s @ partial_l1_call_stack s
     @ [old_private_data_tree_root s]
     @ [fr_of_address (prover_address s)]"

section \<open>The exports of the Rust binding header\<close>

text \<open>
  The header declares ten \<open>extern "C"\<close> functions and defines none. Each declaration is
  recorded with its return type and its parameters, in the order of the header.
\<close>

datatype c_type =
  Const_char_ptr | Fr_in_buf | Fr_out_buf | Fr_vec_in_buf | Uint32_const_ptr | Uint8_const_ptr

record export_decl =
  export_name :: string
  returns :: c_type
  params :: "(string \<times> c_type) list"

definition pedersen_init_decl :: export_decl where
  "pedersen_init_decl =
     \<lparr>export_name = ''pedersen___init'', returns = Const_char_ptr, params = []\<rparr>"

definition pedersen_compress_with_hash_index_decl :: export_decl where
  "pedersen_compress_with_hash_index_decl =
     \<lparr>export_name = ''pedersen___compress_with_hash_index'', returns = Const_char_ptr,
      params = [(''inputs_buffer'', Fr_vec_in_buf), (''hash_index'', Uint32_const_ptr),
                (''output'', Fr_out_buf)]\<rparr>"

definition rust_bind_exports :: "export_decl list" where
  "rust_bind_exports =
     [pedersen_init_decl,
      \<lparr>export_name = ''pedersen___compress_fields'', returns = Const_char_ptr,
       params = [(''left'', Fr_in_buf), (''right'', Fr_in_buf), (''result'', Fr_out_buf)]\<rparr>,
      \<lparr>export_name = ''pedersen___plookup_compress_fields'', returns = Const_char_ptr,
       params = [(''left'', Fr_in_buf), (''right'', Fr_in_buf), (''result'', Fr_out_buf)]\<rparr>,
      \<lparr>export_name = ''pedersen___compress'', returns = Const_char_ptr,
       params = [(''inputs_buffer'', Fr_vec_in_buf), (''output'', Fr_out_buf)]\<rparr>,
      \<lparr>export_name = ''pedersen___plookup_compress'', returns = Const_char_ptr,
       params = [(''inputs_buffer'', Fr_vec_in_buf), (''output'', Fr_out_buf)]\<rparr>,
      pedersen_compress_with_hash_index_decl,
      \<lparr>export_name = ''pedersen___commit'', returns = Const_char_ptr,
       params = [(''inputs_buffer'', Fr_vec_in_buf), (''output'', Fr_out_buf)]\<rparr>,
      \<lparr>export_name = ''pedersen___plookup_commit'', returns = Const_char_ptr,
       params = [(''inputs_buffer'', Fr_vec_in_buf), (''output'', Fr_out_buf)]\<rparr>,
      \<lparr>export_name = ''pedersen___plookup_commit_with_hash_index'', returns = Const_char_ptr,
       params = [(''inputs_buffer'', Fr_vec_in_buf), (''hash_index'', Uint32_const_ptr),
                 (''output'', Fr_out_buf)]\<rparr>,
      \<lparr>export_name = ''pedersen___buffer_to_field'', returns = Const_char_ptr,
       params = [(''data'', Uint8_const_ptr), (''r'', Fr_out_buf)]\<rparr>]"

text \<open>
  Modelled from the spec: the bodies of the exports are not among the sources. Section 6:
  an exported operation returns a null pointer on success, the result then written to the
  output buffer in its canonical 32 bytes, or a pointer to an error string on failure, the
  output buffer then holding nothing the caller may rely on (here: left as it was).
\<close>

datatype c_str = nullptr | error_message string

definition export_return :: "string + fr \<Rightarrow> byte list \<Rightarrow> c_str \<times> byte list" where
  "export_return outcome out_buf =
     (case outcome of
        Inr r \<Rightarrow> (nullptr, be_bytes 32 r)
      | Inl msg \<Rightarrow> (error_message msg, out_buf))"

section \<open>Example instances\<close>

text \<open>
  Concrete instances for the closed theorems below. The sub-structures and the compression
  primitive are parameters of the development; these stand-ins make every array one element
  long, take a \<open>uint32\<close> for a \<open>StateTransition\<close>, a \<open>bool\<close> for a \<open>StateRead\<close> and a scalar for
  a \<open>CallContext\<close>, and compress by adding up.
\<close>

definition ex_pis :: "(fr, fr, fr, u32, bool) PublicCircuitPublicInputs" where
  "ex_pis =
     \<lparr>call_context = 7, custom_inputs = [1], custom_outputs = [2], emitted_events = [3],
      state_transitions = [4], state_reads = [True], public_call_stack = [5],
      contract_deployment_call_stack = [6], partial_l1_call_stack = [8],
      old_private_data_tree_root = 9, prover_address = 10\<rparr>"

definition ex_fs :: FunctionSignature_native where
  "ex_fs = \<lparr>vk_index = 7, is_private = True, is_constructor = False\<rparr>"

definition ex_fs_dst :: FunctionSignature_native where
  "ex_fs_dst = \<lparr>vk_index = 0, is_private = False, is_constructor = False\<rparr>"

definition ex_pedersen :: "fr list \<Rightarrow> GeneratorIndex \<Rightarrow> fr" where
  "ex_pedersen xs g =
     (sum_list xs + (case g of FUNCTION_SIGNATURE \<Rightarrow> 1 | PRIVATE_CIRCUIT_PUBLIC_INPUTS \<Rightarrow> 2))
       mod fr_modulus"

definition ex_pedersen_ct :: "witness_t list \<Rightarrow> GeneratorIndex \<Rightarrow> witness_t" where
  "ex_pedersen_ct ws g = \<lparr>witness = ex_pedersen (map witness ws) g, witness_index = 0\<rparr>"

definition ex_sub_convert :: "(fr, u32, bool, witness_t, witness_t, witness_t) sub_convert" where
  "ex_sub_convert =
     \<lparr>CallContext_to_circuit_type = to_ct_fr,
      StateTransition_to_circuit_type = to_ct_uint32,
      StateRead_to_circuit_type = to_ct_bool\<rparr>"

definition ex_composer :: Composer where
  "ex_composer = \<lparr>variables = [], public_inputs = []\<rparr>"

definition ex_st_hash :: "u32 \<Rightarrow> fr" where
  "ex_st_hash v = ex_pedersen [unat v] FUNCTION_SIGNATURE"

definition ex_st_hash_ct :: "witness_t \<Rightarrow> witness_t" where
  "ex_st_hash_ct w = ex_pedersen_ct [w] FUNCTION_SIGNATURE"

definition ex_sr_hash :: "bool \<Rightarrow> fr" where
  "ex_sr_hash b = ex_pedersen [if b then 1 else 0] FUNCTION_SIGNATURE"

definition ex_sr_hash_ct :: "witness_t \<Rightarrow> witness_t" where
  "ex_sr_hash_ct w = ex_pedersen_ct [w] FUNCTION_SIGNATURE"

section \<open>Encodings and the cursor\<close>

lemma be_value_snoc: "be_value (bs @ [b]) = be_value bs * 256 + unat b"
  by (simp add: be_value_def)

lemma length_be_bytes: "length (be_bytes n v) = n"
  by (induction n arbitrary: v) simp_all

lemma be_value_be_bytes: "be_value (be_bytes n v) = v mod 256 ^ n"
proof (induction n arbitrary: v)
  case 0
  show ?case by (simp add: be_value_def)
next
  case (Suc n)
  have b: "unat (of_nat (v mod 256) :: byte) = v mod 256"
    by (simp add: unat_of_nat)
  have "be_value (be_bytes (Suc n) v) = (v div 256 mod 256 ^ n) * 256 + v mod 256"
    by (simp add: be_value_snoc Suc.IH b)
  also have "\<dots> = v mod 256 ^ Suc n"
    by (simp add: mod_mult2_eq mult.commute)
  finally show ?case .
qed

lemma bytes_at_add:
  "bytes_at m it (n + k) = bytes_at m it n @ bytes_at m (it + n) k"
  unfolding bytes_at_def
  by (rule nth_equalityI) (auto simp: nth_append add.assoc)

lemma length_bytes_at: "length (bytes_at m it n) = n"
  by (simp add: bytes_at_def)

lemma bytes_at_mem_of: "bytes_at (mem_of bs) 0 (length bs) = bs"
  unfolding bytes_at_def mem_of_def
  by (rule nth_equalityI) auto

lemma holds_mem_of: "holds (mem_of bs) 0 bs"
  by (simp add: holds_def bytes_at_mem_of)

lemma holds_append:
  "holds m a (xs @ ys) \<longleftrightarrow> holds m a xs \<and> holds m (a + length xs) ys"
  by (simp add: holds_def bytes_at_add length_bytes_at)

lemma codecD1: "codec P wr rd \<Longrightarrow> wr buf x = buf @ enc wr x"
  by (simp add: codec_def)

lemma codecD2: "codec P wr rd \<Longrightarrow> P x \<Longrightarrow> holds m a (enc wr x) \<Longrightarrow> rd m a = (a + length (enc wr x), x)"
  by (simp add: codec_def)

lemma codec_uint32: "codec (\<lambda>x. True) write_uint32 read_uint32"
proof -
  have "read_uint32 m a = (a + length (enc write_uint32 x), x)"
    if "holds m a (enc write_uint32 x)" for m a x
  proof -
    from that have "bytes_at m a 4 = be_bytes 4 (unat x)"
      by (simp add: holds_def enc_def write_uint32_def length_be_bytes)
    moreover have "unat x mod 256 ^ 4 = unat x"
      using unsigned_less [of x, where 'a = nat] by simp
    ultimately show ?thesis
      by (simp add: read_uint32_def enc_def write_uint32_def length_be_bytes be_value_be_bytes)
  qed
  then show ?thesis
    by (simp add: codec_def enc_def write_uint32_def)
qed

lemma codec_bool: "codec (\<lambda>x. True) write_bool read_bool"
proof -
  have "read_bool m a = (a + length (enc write_bool x), x)"
    if "holds m a (enc write_bool x)" for m a x
  proof -
    from that have "m a = (if x then 1 else 0)"
      by (simp add: holds_def enc_def write_bool_def bytes_at_def)
    then show ?thesis
      by (simp add: read_bool_def enc_def write_bool_def)
  qed
  then show ?thesis
    by (simp add: codec_def enc_def write_bool_def)
qed

section \<open>Reading back what was written\<close>

lemma write_FunctionSignature_layout:
  "write_FunctionSignature buf x =
     buf @ enc write_uint32 (vk_index x) @ enc write_bool (is_private x) @ enc write_bool (is_constructor x)"
  by (simp add: write_FunctionSignature_def Let_def codecD1 [OF codec_uint32] codecD1 [OF codec_bool])

lemma read_FunctionSignature_written:
  assumes "holds m a (write_FunctionSignature [] x)"
  shows "read_FunctionSignature m a d = (a + length (write_FunctionSignature [] x), x)"
proof -
  let ?e1 = "enc write_uint32 (vk_index x)"
  let ?e2 = "enc write_bool (is_private x)"
  let ?e3 = "enc write_bool (is_constructor x)"
  from assms have h1: "holds m a ?e1"
    and h2: "holds m (a + length ?e1) ?e2"
    and h3: "holds m (a + (length ?e1 + length ?e2)) ?e3"
    by (simp_all add: write_FunctionSignature_layout holds_append add.assoc)
  have r1: "read_uint32 m a = (a + length ?e1, vk_index x)"
    by (rule codecD2 [OF codec_uint32 TrueI h1])
  have r2: "read_bool m (a + length ?e1) = (a + (length ?e1 + length ?e2), is_private x)"
    using codecD2 [OF codec_bool TrueI h2] by (simp add: add.assoc)
  have r3: "read_bool m (a + (length ?e1 + length ?e2)) =
              (a + (length ?e1 + (length ?e2 + length ?e3)), is_constructor x)"
    using codecD2 [OF codec_bool TrueI h3] by (simp add: add.assoc)
  show ?thesis
    by (simp add: read_FunctionSignature_def Let_def r1 r2 r3 write_FunctionSignature_layout add.assoc)
qed

section \<open>What a read takes from the buffer\<close>

lemma holds_nth:
  assumes "holds m a bs" and "i < length bs"
  shows "m (a + i) = bs ! i"
proof -
  have "bytes_at m a (length bs) ! i = bs ! i"
    using assms(1) by (simp add: holds_def)
  then show ?thesis
    using assms(2) by (simp add: bytes_at_def)
qed

lemma holds_take:
  assumes "holds m a bs" and "n \<le> length bs"
  shows "bytes_at m a n = take n bs"
proof (rule nth_equalityI)
  show "length (bytes_at m a n) = length (take n bs)"
    using assms(2) by (simp add: length_bytes_at)
next
  fix i
  assume "i < length (bytes_at m a n)"
  then have i: "i < n"
    by (simp add: length_bytes_at)
  then have "m (a + i) = bs ! i"
    using assms by (intro holds_nth) simp_all
  then show "bytes_at m a n ! i = take n bs ! i"
    using i by (simp add: bytes_at_def)
qed

lemma read_FunctionSignature_at:
  "read_FunctionSignature m it d =
     (it + 6,
      \<lparr>vk_index = of_nat (be_value (bytes_at m it 4)),
       is_private = (m (it + 4) \<noteq> 0),
       is_constructor = (m (it + 5) \<noteq> 0)\<rparr>)"
  by (cases d) (simp add: read_FunctionSignature_def read_uint32_def read_bool_def Let_def add.commute)

lemma member_access_emitted_ouputs: "member_access ''emitted_ouputs'' = Inl No_such_member"
  by (simp add: member_access_def PublicCircuitPublicInputs_members_def)

lemma write_PublicCircuitPublicInputs_fails:
  "write_PublicCircuitPublicInputs sub buf x = Inl No_such_member"
  by (simp add: write_PublicCircuitPublicInputs_def Let_def member_access_emitted_ouputs)

lemma read_PublicCircuitPublicInputs_fails:
  "read_PublicCircuitPublicInputs K sub m it d = Inl No_such_member"
  by (simp add: read_PublicCircuitPublicInputs_def Let_def case_prod_beta member_access_emitted_ouputs)

section \<open>Hash inputs and conversion\<close>

lemma PublicCircuitPublicInputs_hash_inputs_eq:
  "PublicCircuitPublicInputs_hash_inputs st_hash sr_hash s =
     custom_inputs s @ custom_outputs s @ emitted_events s
     @ map st_hash (state_transitions s) @ map sr_hash (state_reads s)
     @ public_call_stack s @ contract_deployment_call_stack s @ partial_l1_call_stack s
     @ [old_private_data_tree_root s]"
  by (simp add: PublicCircuitPublicInputs_hash_inputs_def spread_arr_into_vec_def Let_def)

lemma witness_to_ct_fr: "witness (snd (to_ct_fr c e)) = e"
  by (simp add: to_ct_fr_def add_witness_def)

lemma map_composer_values:
  assumes "\<forall>c x. g (snd (f c x)) = h x"
  shows "map g (snd (map_composer f c xs)) = map h xs"
proof (induction xs arbitrary: c)
  case Nil
  show ?case by simp
next
  case (Cons x xs)
  have "map g (snd (map_composer f c (x # xs))) =
          g (snd (f c x)) # map g (snd (map_composer f (fst (f c x)) xs))"
    by (simp add: case_prod_beta)
  then show ?case
    using assms Cons.IH by simp
qed

lemma map_composer_to_ct_fr: "map witness (snd (map_composer to_ct_fr c xs)) = xs"
  using map_composer_values [of witness to_ct_fr "\<lambda>x. x" c xs]
  by (simp add: witness_to_ct_fr)

lemma FunctionSignature_to_circuit_type_values:
  assumes "FunctionSignature_to_circuit_type c (Native x) = Inr (c', y)"
  shows "map witness (FunctionSignature_hash_inputs (CircuitTypes pedersen_ct) y) =
           FunctionSignature_hash_inputs (NativeTypes pedersen) x"
  using assms
  by (auto simp: FunctionSignature_to_circuit_type_def FunctionSignature_hash_inputs_def
      CircuitTypes_def NativeTypes_def to_ct_uint32_def to_ct_bool_def add_witness_def Let_def)

lemma PublicCircuitPublicInputs_to_circuit_type_values:
  assumes st: "\<forall>c s. witness (st_hash_ct (snd (StateTransition_to_circuit_type sub c s))) = st_hash s"
    and sr: "\<forall>c s. witness (sr_hash_ct (snd (StateRead_to_circuit_type sub c s))) = sr_hash s"
    and conv: "PublicCircuitPublicInputs_to_circuit_type sub c (Native p) = Inr (c', q)"
  shows "map witness (PublicCircuitPublicInputs_hash_inputs st_hash_ct sr_hash_ct q) =
           PublicCircuitPublicInputs_hash_inputs st_hash sr_hash p"
proof -
  have t: "map (\<lambda>u. witness (st_hash_ct u)) (snd (map_composer (StateTransition_to_circuit_type sub) k xs)) =
             map st_hash xs" for k xs
    by (rule map_composer_values) (use st in simp)
  have r: "map (\<lambda>u. witness (sr_hash_ct u)) (snd (map_composer (StateRead_to_circuit_type sub) k xs)) =
             map sr_hash xs" for k xs
    by (rule map_composer_values) (use sr in simp)
  from conv show ?thesis
    by (auto simp: PublicCircuitPublicInputs_to_circuit_type_def Let_def case_prod_beta
        PublicCircuitPublicInputs_hash_inputs_eq map_composer_to_ct_fr witness_to_ct_fr t r comp_def)
qed

lemma FunctionSignature_eq_iff:
  fixes x y :: "('p, 'q) FunctionSignature"
  shows "x = y \<longleftrightarrow>
      vk_index x = vk_index y \<and> is_private x = is_private y \<and> is_constructor x = is_constructor y"
  by (cases x; cases y) simp

section \<open>Facts about the export table\<close>

lemma compress_with_hash_index_exported:
  "pedersen_compress_with_hash_index_decl \<in> set rust_bind_exports"
  by (simp add: rust_bind_exports_def)

lemma compress_with_hash_index_name:
  "export_name pedersen_compress_with_hash_index_decl \<noteq> ''pedersen___init''"
  by (simp add: pedersen_compress_with_hash_index_decl_def)

lemma hash_index_param:
  "params pedersen_compress_with_hash_index_decl ! 1 \<in> set (params pedersen_compress_with_hash_index_decl) \<and>
   fst (params pedersen_compress_with_hash_index_decl ! 1) = ''hash_index''"
  by (simp add: pedersen_compress_with_hash_index_decl_def)

section \<open>The claims\<close>

text \<open>
  C1, conversion soundness. Converting a native structure succeeds, and on the converted
  structure the hash hands to \<open>compress\<close> wires whose values are, element for element, the
  scalars the native hash hands to \<open>compress\<close>, under the same generator index. So whenever
  the in-circuit primitive computes on wire values what the native primitive computes on
  scalars (and the hashes of the sub-structures agree in the same way), the value of the
  circuit hash of \<open>to_circuit_type(x)\<close> is the native hash of \<open>x\<close>, for \<open>FunctionSignature\<close> and
  for \<open>PublicCircuitPublicInputs\<close>.
\<close>

theorem conversion_soundness:
  assumes "\<forall>ws g. witness (pedersen_ct ws g) = pedersen (map witness ws) g"
    and "\<forall>c s. witness (st_hash_ct (snd (StateTransition_to_circuit_type sub c s))) = st_hash s"
    and "\<forall>c s. witness (sr_hash_ct (snd (StateRead_to_circuit_type sub c s))) = sr_hash s"
  shows "(case FunctionSignature_to_circuit_type c (Native x) of
            Inl e \<Rightarrow> False
          | Inr (c', y) \<Rightarrow>
              map witness (FunctionSignature_hash_inputs (CircuitTypes pedersen_ct) y) =
                FunctionSignature_hash_inputs (NativeTypes pedersen) x \<and>
              witness (FunctionSignature_hash (CircuitTypes pedersen_ct) y) =
                FunctionSignature_hash (NativeTypes pedersen) x) \<and>
         (case PublicCircuitPublicInputs_to_circuit_type sub c (Native p) of
            Inl e \<Rightarrow> False
          | Inr (c', q) \<Rightarrow>
              map witness (PublicCircuitPublicInputs_hash_inputs st_hash_ct sr_hash_ct q) =
                PublicCircuitPublicInputs_hash_inputs st_hash sr_hash p \<and>
              witness (PublicCircuitPublicInputs_hash (CircuitTypes pedersen_ct) st_hash_ct sr_hash_ct q) =
                PublicCircuitPublicInputs_hash (NativeTypes pedersen) st_hash sr_hash p)"
proof (intro conjI)
  obtain c1 y where fs: "FunctionSignature_to_circuit_type c (Native x) = Inr (c1, y)"
    by (simp add: FunctionSignature_to_circuit_type_def Let_def case_prod_beta)
  have i: "map witness (FunctionSignature_hash_inputs (CircuitTypes pedersen_ct) y) =
             FunctionSignature_hash_inputs (NativeTypes pedersen) x"
    by (rule FunctionSignature_to_circuit_type_values [OF fs])
  have "witness (FunctionSignature_hash (CircuitTypes pedersen_ct) y) =
          pedersen (map witness (FunctionSignature_hash_inputs (CircuitTypes pedersen_ct) y))
            FUNCTION_SIGNATURE"
    using assms(1) by (simp add: FunctionSignature_hash_def CircuitTypes_def)
  also have "\<dots> = FunctionSignature_hash (NativeTypes pedersen) x"
    by (simp add: i FunctionSignature_hash_def NativeTypes_def)
  finally show "case FunctionSignature_to_circuit_type c (Native x) of
            Inl e \<Rightarrow> False
          | Inr (c', y) \<Rightarrow>
              map witness (FunctionSignature_hash_inputs (CircuitTypes pedersen_ct) y) =
                FunctionSignature_hash_inputs (NativeTypes pedersen) x \<and>
              witness (FunctionSignature_hash (CircuitTypes pedersen_ct) y) =
                FunctionSignature_hash (NativeTypes pedersen) x"
    using i by (simp add: fs)
next
  obtain c2 q where pc: "PublicCircuitPublicInputs_to_circuit_type sub c (Native p) = Inr (c2, q)"
    by (simp add: PublicCircuitPublicInputs_to_circuit_type_def Let_def case_prod_beta)
  have i: "map witness (PublicCircuitPublicInputs_hash_inputs st_hash_ct sr_hash_ct q) =
             PublicCircuitPublicInputs_hash_inputs st_hash sr_hash p"
    by (rule PublicCircuitPublicInputs_to_circuit_type_values [OF assms(2) assms(3) pc])
  have "witness (PublicCircuitPublicInputs_hash (CircuitTypes pedersen_ct) st_hash_ct sr_hash_ct q) =
          pedersen (map witness (PublicCircuitPublicInputs_hash_inputs st_hash_ct sr_hash_ct q))
            PRIVATE_CIRCUIT_PUBLIC_INPUTS"
    using assms(1) by (simp add: PublicCircuitPublicInputs_hash_def CircuitTypes_def)
  also have "\<dots> = PublicCircuitPublicInputs_hash (NativeTypes pedersen) st_hash sr_hash p"
    by (simp add: i PublicCircuitPublicInputs_hash_def NativeTypes_def)
  finally show "case PublicCircuitPublicInputs_to_circuit_type sub c (Native p) of
            Inl e \<Rightarrow> False
          | Inr (c', q) \<Rightarrow>
              map witness (PublicCircuitPublicInputs_hash_inputs st_hash_ct sr_hash_ct q) =
                PublicCircuitPublicInputs_hash_inputs st_hash sr_hash p \<and>
              witness (PublicCircuitPublicInputs_hash (CircuitTypes pedersen_ct) st_hash_ct sr_hash_ct q) =
                PublicCircuitPublicInputs_hash (NativeTypes pedersen) st_hash sr_hash p"
    using i by (simp add: pc)
qed

theorem conversion_soundness_witness:
  "witness (FunctionSignature_hash (CircuitTypes ex_pedersen_ct)
       (snd (projr (FunctionSignature_to_circuit_type ex_composer (Native ex_fs))))) =
     FunctionSignature_hash (NativeTypes ex_pedersen) ex_fs \<and>
   witness (PublicCircuitPublicInputs_hash (CircuitTypes ex_pedersen_ct) ex_st_hash_ct ex_sr_hash_ct
       (snd (projr (PublicCircuitPublicInputs_to_circuit_type ex_sub_convert ex_composer (Native ex_pis))))) =
     PublicCircuitPublicInputs_hash (NativeTypes ex_pedersen) ex_st_hash ex_sr_hash ex_pis"
proof -
  have h1: "\<forall>ws g. witness (ex_pedersen_ct ws g) = ex_pedersen (map witness ws) g"
    by (simp add: ex_pedersen_ct_def)
  have h2: "\<forall>c s. witness (ex_st_hash_ct (snd (StateTransition_to_circuit_type ex_sub_convert c s))) =
              ex_st_hash s"
    by (simp add: ex_st_hash_ct_def ex_st_hash_def ex_pedersen_ct_def ex_sub_convert_def
        to_ct_uint32_def add_witness_def)
  have h3: "\<forall>c s. witness (ex_sr_hash_ct (snd (StateRead_to_circuit_type ex_sub_convert c s))) =
              ex_sr_hash s"
    by (simp add: ex_sr_hash_ct_def ex_sr_hash_def ex_pedersen_ct_def ex_sub_convert_def
        to_ct_bool_def add_witness_def)
  from conversion_soundness [OF h1 h2 h3, where c = ex_composer and x = ex_fs and p = ex_pis]
  show ?thesis
    by (auto split: sum.splits prod.splits)
qed

text \<open>
  C2, domain separation. The two hashes compress under the index each names:
  \<open>FunctionSignature\<close> under \<open>FUNCTION_SIGNATURE\<close>, and \<open>PublicCircuitPublicInputs\<close> under
  \<open>PRIVATE_CIRCUIT_PUBLIC_INPUTS\<close>, the tag of the private kind, not one of its own.
\<close>

theorem PublicCircuitPublicInputs_hash_index:
  "PublicCircuitPublicInputs_hash nct st_hash sr_hash s =
     compress nct (PublicCircuitPublicInputs_hash_inputs st_hash sr_hash s) PRIVATE_CIRCUIT_PUBLIC_INPUTS \<and>
   FunctionSignature_hash nct' x =
     compress nct' (FunctionSignature_hash_inputs nct' x) FUNCTION_SIGNATURE"
  by (simp add: PublicCircuitPublicInputs_hash_def FunctionSignature_hash_def)

text \<open>
  C3, serialization round trip. For \<open>PublicCircuitPublicInputs\<close> there is no round trip to
  speak of: \<open>write\<close> and \<open>read\<close> both name the undeclared member \<open>emitted_ouputs\<close>, so writing any
  instance \<open>x\<close> yields no bytes, and reading back what \<open>write\<close> produced yields no structure,
  whatever the destination. (For \<open>FunctionSignature\<close> the round trip holds, see
  \<open>read_FunctionSignature_written\<close>.)
\<close>

theorem PublicCircuitPublicInputs_round_trip_ill_formed:
  "(case write_PublicCircuitPublicInputs sub [] x of
      Inl e \<Rightarrow> Inl e
    | Inr bs \<Rightarrow> read_PublicCircuitPublicInputs K sub (mem_of bs) 0 d) = Inl No_such_member"
  by (simp add: write_PublicCircuitPublicInputs_fails)

text \<open>
  C4, as stated, fails: the sequence the code compresses is not the declared flattening.
  It ends with \<open>old_private_data_tree_root\<close>, and a sub-structure contributes one scalar, its
  own hash, not its fields.
\<close>

theorem PublicCircuitPublicInputs_hash_flattening_counterexample:
  "PublicCircuitPublicInputs_hash_inputs ex_st_hash ex_sr_hash ex_pis \<noteq>
     declared_flattening (\<lambda>v. [unat v]) (\<lambda>b. [if b then 1 else 0]) (\<lambda>a. a) ex_pis"
  by (simp add: PublicCircuitPublicInputs_hash_inputs_eq declared_flattening_def ex_pis_def)

text \<open>
  C4, hash flattening of \<open>PublicCircuitPublicInputs\<close>, as amended. The sequence handed to
  \<open>compress\<close> begins, in declaration order, with \<open>custom_inputs\<close>, \<open>custom_outputs\<close>,
  \<open>emitted_events\<close> element by element, then the \<open>hash()\<close> of each element of
  \<open>state_transitions\<close> and of \<open>state_reads\<close> in index order, then \<open>public_call_stack\<close>,
  \<open>contract_deployment_call_stack\<close>, \<open>partial_l1_call_stack\<close> element by element, then
  \<open>old_private_data_tree_root\<close>; it does not depend on \<open>call_context\<close>; and it is compressed
  under the generator index that \<open>hash()\<close> names.
\<close>

theorem PublicCircuitPublicInputs_hash_flattening:
  "prefix (custom_inputs s @ custom_outputs s @ emitted_events s
           @ map st_hash (state_transitions s) @ map sr_hash (state_reads s)
           @ public_call_stack s @ contract_deployment_call_stack s @ partial_l1_call_stack s
           @ [old_private_data_tree_root s])
     (PublicCircuitPublicInputs_hash_inputs st_hash sr_hash s) \<and>
   PublicCircuitPublicInputs_hash_inputs st_hash sr_hash (s\<lparr>call_context := cc\<rparr>) =
     PublicCircuitPublicInputs_hash_inputs st_hash sr_hash s \<and>
   PublicCircuitPublicInputs_hash nct st_hash sr_hash s =
     compress nct (PublicCircuitPublicInputs_hash_inputs st_hash sr_hash s) PRIVATE_CIRCUIT_PUBLIC_INPUTS"
  by (simp add: PublicCircuitPublicInputs_hash_inputs_eq PublicCircuitPublicInputs_hash_def)

text \<open>
  C5, the field invariant of \<open>FunctionSignature\<close>. Two instances are equal exactly when
  \<open>vk_index\<close>, \<open>is_private\<close> and \<open>is_constructor\<close> agree; the hash compresses
  \<open>[vk_index, is_private, is_constructor]\<close> under \<open>FUNCTION_SIGNATURE\<close>; \<open>write\<close> appends the four
  bytes of \<open>vk_index\<close>, then the byte of \<open>is_private\<close>, then the byte of \<open>is_constructor\<close>; and
  \<open>read\<close> takes them from the cursor in that order, six bytes in all.
\<close>

theorem FunctionSignature_field_invariant:
  "((x :: ('p, 'q) FunctionSignature) = y \<longleftrightarrow>
      vk_index x = vk_index y \<and> is_private x = is_private y \<and> is_constructor x = is_constructor y) \<and>
   FunctionSignature_hash nct s =
     compress nct [fr_of_uint32 nct (vk_index s), fr_of_boolean nct (is_private s),
                   fr_of_boolean nct (is_constructor s)] FUNCTION_SIGNATURE \<and>
   write_FunctionSignature buf z =
     buf @ be_bytes 4 (unat (vk_index z)) @ [if is_private z then 1 else 0]
         @ [if is_constructor z then 1 else 0] \<and>
   read_FunctionSignature m it d =
     (it + 6,
      \<lparr>vk_index = of_nat (be_value (bytes_at m it 4)),
       is_private = (m (it + 4) \<noteq> 0),
       is_constructor = (m (it + 5) \<noteq> 0)\<rparr>)"
proof (intro conjI)
  show "x = y \<longleftrightarrow>
      vk_index x = vk_index y \<and> is_private x = is_private y \<and> is_constructor x = is_constructor y"
    by (rule FunctionSignature_eq_iff)
  show "FunctionSignature_hash nct s =
     compress nct [fr_of_uint32 nct (vk_index s), fr_of_boolean nct (is_private s),
                   fr_of_boolean nct (is_constructor s)] FUNCTION_SIGNATURE"
    by (simp add: FunctionSignature_hash_def FunctionSignature_hash_inputs_def)
  show "write_FunctionSignature buf z =
     buf @ be_bytes 4 (unat (vk_index z)) @ [if is_private z then 1 else 0]
         @ [if is_constructor z then 1 else 0]"
    by (simp add: write_FunctionSignature_def write_uint32_def write_bool_def Let_def)
  show "read_FunctionSignature m it d =
     (it + 6,
      \<lparr>vk_index = of_nat (be_value (bytes_at m it 4)),
       is_private = (m (it + 4) \<noteq> 0),
       is_constructor = (m (it + 5) \<noteq> 0)\<rparr>)"
    by (cases d) (simp add: read_FunctionSignature_def read_uint32_def read_bool_def Let_def add.commute)
qed

text \<open>
  C6, precondition enforcement. \<open>to_circuit_type\<close> on a structure already in circuit
  representation and \<open>set_public\<close> on a structure in native representation end in the failed
  \<open>static_assert\<close>, with no result, for \<open>FunctionSignature\<close>; so does \<open>to_circuit_type\<close> of
  \<open>PublicCircuitPublicInputs\<close>.
\<close>

theorem representation_preconditions:
  "FunctionSignature_to_circuit_type c (Circuit y) = Inl Static_assert_failed \<and>
   FunctionSignature_set_public c (Native x) = Inl Static_assert_failed \<and>
   PublicCircuitPublicInputs_to_circuit_type sub c (Circuit q) = Inl Static_assert_failed"
  by (simp add: FunctionSignature_to_circuit_type_def FunctionSignature_set_public_def
      PublicCircuitPublicInputs_to_circuit_type_def)

text \<open>
  C7, as stated, fails: \<open>read\<close> is handed a bare cursor and returns nothing but the
  advanced cursor and the structure. On a buffer of three bytes, shorter than the six of a
  \<open>FunctionSignature\<close>, no decoding error comes back: the read runs three bytes past the end
  of the buffer and takes the remaining fields from whatever the memory holds there (zero
  bytes in this instance).
\<close>

theorem read_short_buffer_counterexample:
  "length [1, 2, 3 :: byte] < 6 \<and>
   read_FunctionSignature (mem_of [1, 2, 3]) 0 ex_fs_dst =
     (6, \<lparr>vk_index = 16909056, is_private = False, is_constructor = False\<rparr>)"
  by (simp add: read_FunctionSignature_def read_uint32_def read_bool_def Let_def
      bytes_at_def mem_of_def be_value_def ex_fs_dst_def upt_rec)

text \<open>
  C7, as amended. \<open>read\<close> takes a bare cursor and returns nothing: it has no length to check
  and no error to report. For \<open>FunctionSignature\<close>, whenever the buffer at the cursor holds at
  least the six bytes of the structure, \<open>read\<close> fills \<open>vk_index\<close> from the first four of them,
  \<open>is_private\<close> from the fifth and \<open>is_constructor\<close> from the sixth, and leaves the cursor six
  bytes further.
\<close>

theorem read_without_bounds_check:
  assumes "holds m it bs" and "6 \<le> length bs"
  shows "read_FunctionSignature m it d =
           (it + 6,
            \<lparr>vk_index = of_nat (be_value (take 4 bs)),
             is_private = (bs ! 4 \<noteq> 0),
             is_constructor = (bs ! 5 \<noteq> 0)\<rparr>)"
proof -
  have v: "bytes_at m it 4 = take 4 bs"
    using assms by (intro holds_take) simp_all
  have p: "m (it + 4) = bs ! 4"
    using assms by (intro holds_nth) simp_all
  have k: "m (it + 5) = bs ! 5"
    using assms by (intro holds_nth) simp_all
  show ?thesis
    by (simp add: read_FunctionSignature_at v p k)
qed

theorem read_without_bounds_check_witness:
  "read_FunctionSignature (mem_of [0, 0, 0, 7, 1, 0]) 0 ex_fs_dst =
     (0 + 6,
      \<lparr>vk_index = of_nat (be_value (take 4 [0, 0, 0, 7, 1, 0])),
       is_private = ([0, 0, 0, 7, 1, 0 :: byte] ! 4 \<noteq> 0),
       is_constructor = ([0, 0, 0, 7, 1, 0 :: byte] ! 5 \<noteq> 0)\<rparr>)"
  by (rule read_without_bounds_check [OF holds_mem_of]) simp

text \<open>
  C8, empty construction. \<open>empty()\<close> initialises the three members from five clauses,
  which is ill-formed: no zero-valued structure results.
\<close>

theorem FunctionSignature_empty_ill_formed:
  "FunctionSignature_empty = Inl Too_many_initializers"
  by (simp add: FunctionSignature_empty_def)

text \<open>
  C9, as stated, fails for \<open>pedersen___init\<close>: it is exported and takes no parameter, so
  no caller-provided output buffer.
\<close>

theorem ffi_error_convention_counterexample:
  "pedersen_init_decl \<in> set rust_bind_exports \<and> params pedersen_init_decl = []"
  by (simp add: rust_bind_exports_def pedersen_init_decl_def)

text \<open>
  C9, the error convention of the exports, as amended. Every export returns a
  \<open>const char *\<close>; every export other than \<open>pedersen___init\<close> takes a caller-provided output
  buffer as its last parameter; every \<open>hash_index\<close> parameter is a pointer to a 4-byte
  unsigned integer; and the returned pointer is null with the result written to the output
  buffer on success, or an error message on failure.
\<close>

theorem ffi_error_convention:
  "(\<forall>d \<in> set rust_bind_exports.
      returns d = Const_char_ptr \<and>
      (export_name d \<noteq> ''pedersen___init'' \<longrightarrow>
         params d \<noteq> [] \<and> snd (last (params d)) = Fr_out_buf) \<and>
      (\<forall>p \<in> set (params d). fst p = ''hash_index'' \<longrightarrow> snd p = Uint32_const_ptr)) \<and>
   export_return (Inr r) out_buf = (nullptr, be_bytes 32 r) \<and>
   fst (export_return (Inl msg) out_buf) = error_message msg"
  by (simp add: rust_bind_exports_def pedersen_init_decl_def
      pedersen_compress_with_hash_index_decl_def export_return_def)

theorem ffi_error_convention_witness:
  "returns pedersen_compress_with_hash_index_decl = Const_char_ptr \<and>
   snd (last (params pedersen_compress_with_hash_index_decl)) = Fr_out_buf \<and>
   snd (params pedersen_compress_with_hash_index_decl ! 1) = Uint32_const_ptr"
  using ffi_error_convention compress_with_hash_index_exported compress_with_hash_index_name
    hash_index_param
  by blast

text \<open>
  C10, the frame of the serialization of \<open>PublicCircuitPublicInputs\<close>. Neither overload can
  be called: each names the undeclared member \<open>emitted_ouputs\<close>, so \<open>read\<close> overwrites no field
  of the destination from the buffer and \<open>write\<close> emits no bytes, for any input.
\<close>

theorem PublicCircuitPublicInputs_serialization_ill_formed:
  "read_PublicCircuitPublicInputs K sub m it pis = Inl No_such_member \<and>
   write_PublicCircuitPublicInputs sub buf pis = Inl No_such_member"
  by (simp add: read_PublicCircuitPublicInputs_fails write_PublicCircuitPublicInputs_fails)

end
